theory Spec2Isabelle
  imports Complex_Main "HOL-Library.Product_Lexorder" "HOL-Library.List_Lexorder"
    "HOL-Library.Char_ord" "HOL-Library.Multiset" "HOL-Library.AList"
begin

section \<open>Values, documents and exceptions\<close>

text \<open>
  The service (\<^verbatim>\<open>main.py\<close>) is a set of request handlers over a document store.
  A field of a document holds a Python value. A Python \<^verbatim>\<open>float\<close> is given by the real
  number it denotes; the arithmetic on floats rounds to binary64 (section Floats).
  A \<^verbatim>\<open>datetime\<close> is a point on a discrete time line.
\<close>

datatype val =
    VNone
  | VInt int
  | VFloat real
  | VStr string
  | VTime nat
  | VList "val list"

text \<open>A Python \<^verbatim>\<open>dict\<close> with string keys.\<close>

type_synonym dict = "string \<rightharpoonup> val"

text \<open>
  \<^verbatim>\<open>bson.ObjectId\<close>: a store identifier, kept as the 24 lower-case hexadecimal digits
  that \<^verbatim>\<open>str\<close> prints.
\<close>

datatype objectid = OID string

text \<open>
  A document as the store returns it: a dict whose key \<^verbatim>\<open>_id\<close>, when present, holds an
  ObjectId (field \<open>oid\<close>; \<open>None\<close> once the key is popped), and whose other keys are
  \<open>entries\<close>.
\<close>

record document =
  oid :: "objectid option"
  entries :: dict

text \<open>
  Exceptions are values. \<^verbatim>\<open>HTTPException\<close> is a subclass of \<^verbatim>\<open>Exception\<close>; every other
  exception (\<^verbatim>\<open>TypeError\<close>, \<^verbatim>\<open>bson.errors.InvalidId\<close>, the driver's errors)
  is \<open>Exception\<close> with its message. Both are caught by \<^verbatim>\<open>except Exception\<close>.
\<close>

datatype exn = HTTPException nat string | Exception string

text \<open>What a handler returns to the framework.\<close>

datatype response =
    Ident string               \<comment> \<open>\<^verbatim>\<open>{"id": ...}\<close>\<close>
  | Items "document list"   \<comment> \<open>\<^verbatim>\<open>{"items": [...]}\<close>\<close>
  | Document document       \<comment> \<open>a single document\<close>
  | Dict "(string \<times> val) list"  \<comment> \<open>a literal dict, keys in insertion order\<close>

section \<open>The document store\<close>

text \<open>
  The store behind the module-level handle \<^verbatim>\<open>db\<close> (a \<^verbatim>\<open>pymongo\<close> database, outside the
  repository): its collections with their documents in store-native order, a fault
  (\<open>Some msg\<close> when the server cannot be reached: every operation on it raises with that
  message), and the server's regular-expression engine, which compiles a pattern and its
  options to a search predicate, or rejects the pattern.
\<close>

record database =
  name :: "string option"
  collections :: "(string \<times> document list) list"
  fault :: "string option"
  regex :: "string \<Rightarrow> string \<Rightarrow> (string \<Rightarrow> bool) option"

text \<open>
  A handler runs against the handle \<^verbatim>\<open>db\<close>, which is \<open>None\<close> when no store is
  configured. It returns a value or raises, and leaves the store in a new state.
\<close>

type_synonym 'a io = "database option \<Rightarrow> (exn + 'a) \<times> database option"

definition io_return :: "'a \<Rightarrow> 'a io" where
  "io_return x = (\<lambda>s. (Inr x, s))"

definition io_raise :: "exn \<Rightarrow> 'a io" where
  "io_raise e = (\<lambda>s. (Inl e, s))"

definition io_bind :: "'a io \<Rightarrow> ('a \<Rightarrow> 'b io) \<Rightarrow> 'b io" where
  "io_bind m f = (\<lambda>s. case m s of (Inl e, s') \<Rightarrow> (Inl e, s') | (Inr x, s') \<Rightarrow> f x s')"

text \<open>\<^verbatim>\<open>try: m  except Exception as e: h e\<close>. Writes made before the raise stay.\<close>

definition try_except :: "'a io \<Rightarrow> (exn \<Rightarrow> 'a io) \<Rightarrow> 'a io" where
  "try_except m h = (\<lambda>s. case m s of (Inl e, s') \<Rightarrow> h e s' | (Inr x, s') \<Rightarrow> (Inr x, s'))"

text \<open>
  An operation of the driver on the store: it raises when there is no handle
  (\<^verbatim>\<open>db[...]\<close> on \<^verbatim>\<open>None\<close> is a \<^verbatim>\<open>TypeError\<close>) and when the server is unreachable.
\<close>

definition with_store :: "(database \<Rightarrow> (exn + 'a) \<times> database) \<Rightarrow> 'a io" where
  "with_store f = (\<lambda>s. case s of
       None \<Rightarrow> (Inl (Exception ''TypeError''), None)
     | Some d \<Rightarrow> (case fault d of
         Some msg \<Rightarrow> (Inl (Exception msg), Some d)
       | None \<Rightarrow> (case f d of (r, d') \<Rightarrow> (r, Some d'))))"

definition docs_of :: "database \<Rightarrow> string \<Rightarrow> document list" where
  "docs_of d c = (case map_of (collections d) c of None \<Rightarrow> [] | Some ds \<Rightarrow> ds)"

definition str_oid :: "objectid \<Rightarrow> string" where
  "str_oid i = (case i of OID h \<Rightarrow> h)"

text \<open>\<^verbatim>\<open>insert_one\<close>: the document goes to the end of its collection.\<close>

definition insert_one :: "string \<Rightarrow> document \<Rightarrow> database \<Rightarrow> database" where
  "insert_one c x d = d\<lparr>collections := AList.update c (docs_of d c @ [x]) (collections d)\<rparr>"

text \<open>
  Modelled from the spec: \<^verbatim>\<open>database.create_document\<close> is not among the sources. The
  spec gives it as the primitive ``insert-document(collection, data) \<open>\<rightarrow>\<close> id'': the data
  is stored as a new document of the collection and the new identifier is returned as a
  string. \<open>new\<close> is the identifier the store assigns to this insert.
\<close>

definition create_document :: "objectid \<Rightarrow> string \<Rightarrow> dict \<Rightarrow> string io" where
  "create_document new c data =
     with_store (\<lambda>d. (Inr (str_oid new), insert_one c \<lparr>oid = Some new, entries = data\<rparr> d))"

section \<open>Bookings\<close>

text \<open>
  \<^verbatim>\<open>schemas.Booking\<close> is not among the sources. The handler reads two attributes,
  \<^verbatim>\<open>user_type\<close> and \<^verbatim>\<open>athlete_age\<close>; \<open>booking_rest\<close> holds the other fields.
\<close>

record Booking =
  user_type :: string
  athlete_age :: "int option"
  booking_rest :: dict

definition booking_dump :: "Booking \<Rightarrow> dict" where
  "booking_dump b = (booking_rest b)
     (''user_type'' \<mapsto> VStr (user_type b),
      ''athlete_age'' \<mapsto> (case athlete_age b of None \<Rightarrow> VNone | Some a \<Rightarrow> VInt a))"

text \<open>
  \<^verbatim>\<open>create_booking\<close>: the adult/parent check, then the insert.
\<close>

definition booking_check :: "Booking \<Rightarrow> unit io" where
  "booking_check b =
     (if user_type b = ''adult'' then
        (if athlete_age b \<noteq> None \<and> the (athlete_age b) < 18
         then io_raise (HTTPException 400 ''Adults must be 18+'')
         else io_return ())
      else
        (if athlete_age b = None \<or> the (athlete_age b) \<ge> 18
         then io_raise (HTTPException 400
                ''Provide athlete_age for parent bookings and must be < 18'')
         else io_return ()))"

definition create_booking :: "objectid \<Rightarrow> Booking \<Rightarrow> response io" where
  "create_booking new b =
     io_bind (booking_check b) (\<lambda>_.
     io_bind (create_document new ''booking'' (booking_dump b)) (\<lambda>booking_id.
     io_return (Ident booking_id)))"

text \<open>The bookings that the check of \<^verbatim>\<open>create_booking\<close> turns down, and with which detail.\<close>

definition check_fails :: "Booking \<Rightarrow> bool" where
  "check_fails b =
     (if user_type b = ''adult'' then (case athlete_age b of None \<Rightarrow> False | Some a \<Rightarrow> a < 18)
      else (case athlete_age b of None \<Rightarrow> True | Some a \<Rightarrow> \<not> a < 18))"

definition check_reason :: "Booking \<Rightarrow> string" where
  "check_reason b =
     (if user_type b = ''adult'' then ''Adults must be 18+''
      else ''Provide athlete_age for parent bookings and must be < 18'')"

text \<open>
  The age rule as the spec words it: an adult booking must not carry an athlete_age
  under 18; a parent booking must carry an athlete_age, and under 18.
\<close>

definition violates_age_rule :: "Booking \<Rightarrow> bool" where
  "violates_age_rule b =
     ((user_type b = ''adult''
         \<and> (case athlete_age b of None \<Rightarrow> False | Some a \<Rightarrow> a < 18))
      \<or> (user_type b = ''parent''
         \<and> (case athlete_age b of None \<Rightarrow> True | Some a \<Rightarrow> \<not> a < 18)))"

section \<open>Coaches: fetch by identifier\<close>

text \<open>
  \<^verbatim>\<open>ObjectId(s)\<close> on a string (\<^verbatim>\<open>bson\<close>, outside the repository), as documented: a
  string of 24 hexadecimal digits is accepted, anything else raises \<^verbatim>\<open>InvalidId\<close>.
  Two spellings that differ in letter case are the same identifier.
\<close>

definition is_hex :: "char \<Rightarrow> bool" where
  "is_hex c = (c \<in> set ''0123456789abcdefABCDEF'')"

definition lower :: "char \<Rightarrow> char" where
  "lower c =
     (case map_of (zip ''ABCDEFGHIJKLMNOPQRSTUVWXYZ'' ''abcdefghijklmnopqrstuvwxyz'') c of
        None \<Rightarrow> c
      | Some l \<Rightarrow> l)"

definition ObjectId :: "string \<Rightarrow> exn + objectid" where
  "ObjectId s =
     (if length s = 24 \<and> list_all is_hex s then Inr (OID (map lower s))
      else Inl (Exception ''InvalidId''))"

definition io_lift :: "exn + 'a \<Rightarrow> 'a io" where
  "io_lift r = (\<lambda>s. (r, s))"

text \<open>\<^verbatim>\<open>db[c]\<close>: a \<^verbatim>\<open>TypeError\<close> when the handle is \<^verbatim>\<open>None\<close>, else the collection.\<close>

definition db_getitem :: "string \<Rightarrow> string io" where
  "db_getitem c = (\<lambda>s. case s of
       None \<Rightarrow> (Inl (Exception ''TypeError''), None)
     | Some d \<Rightarrow> (Inr c, Some d))"

text \<open>\<^verbatim>\<open>find_one({"_id": i})\<close>: the first document of the collection with that identifier.\<close>

definition find_one :: "string \<Rightarrow> objectid \<Rightarrow> document option io" where
  "find_one c i = with_store (\<lambda>d. (Inr (List.find (\<lambda>x. oid x = Some i) (docs_of d c)), d))"

text \<open>
  \<^verbatim>\<open>get_coach\<close>. The whole body, the \<^verbatim>\<open>raise HTTPException(status_code=404, ...)\<close>
  included, stands inside \<^verbatim>\<open>try: ... except Exception:\<close>, whose handler raises the 400.
  \<^verbatim>\<open>doc["_id"]\<close> is a \<^verbatim>\<open>KeyError\<close> on a document without the key.
\<close>

definition get_coach :: "string \<Rightarrow> response io" where
  "get_coach coach_id =
     try_except
       (io_bind (db_getitem ''coach'') (\<lambda>coach.
        io_bind (io_lift (ObjectId coach_id)) (\<lambda>i.
        io_bind (find_one coach i) (\<lambda>doc.
          case doc of
            None \<Rightarrow> io_raise (HTTPException 404 ''Coach not found'')
          | Some x \<Rightarrow>
              (case oid x of
                 None \<Rightarrow> io_raise (Exception ''KeyError'')
               | Some j \<Rightarrow> io_return (Document
                   (x\<lparr>entries := (entries x)(''id'' \<mapsto> VStr (str_oid j)), oid := None\<rparr>)))))))
       (\<lambda>e. io_raise (HTTPException 400 ''Invalid coach id''))"

section \<open>Queries of the store\<close>

text \<open>
  The filters the handlers build. A condition on a field is a string to equal
  (\<^verbatim>\<open>{"coach_id": s}\<close>) or a regular expression with options
  (\<^verbatim>\<open>{"$regex": p, "$options": o}\<close>); a filter is the conjunction of its clauses, a
  clause being a condition on a field or an \<^verbatim>\<open>$or\<close> of sub-filters.
\<close>

datatype cond = Is string | Regex string string

datatype clause = Field string cond | Or "(string \<times> cond) list list"

type_synonym filter = "clause list"

text \<open>
  A field equals a string when it is that string or an array that holds it. A regular
  expression is searched in a string field, or in the strings of an array field. A
  missing field matches neither.
\<close>

definition is_match :: "string \<Rightarrow> val option \<Rightarrow> bool" where
  "is_match s v =
     (case v of
        Some (VStr t) \<Rightarrow> t = s
      | Some (VList xs) \<Rightarrow> list_ex (\<lambda>x. x = VStr s) xs
      | _ \<Rightarrow> False)"

definition regex_hit :: "(string \<Rightarrow> bool) \<Rightarrow> val option \<Rightarrow> bool" where
  "regex_hit m v =
     (case v of
        Some (VStr t) \<Rightarrow> m t
      | Some (VList xs) \<Rightarrow> list_ex (\<lambda>x. case x of VStr t \<Rightarrow> m t | _ \<Rightarrow> False) xs
      | _ \<Rightarrow> False)"

text \<open>
  Search of one string in another, character by character under \<open>eq\<close>: \<open>occurs eq p s\<close>
  holds when \<open>p\<close> matches at some position of \<open>s\<close>. With letters compared in lower case
  it is the case-insensitive substring search.
\<close>

fun starts_with :: "(char \<Rightarrow> char \<Rightarrow> bool) \<Rightarrow> string \<Rightarrow> string \<Rightarrow> bool" where
  "starts_with eq [] s = True"
| "starts_with eq (p # ps) [] = False"
| "starts_with eq (p # ps) (c # cs) = (eq p c \<and> starts_with eq ps cs)"

fun occurs :: "(char \<Rightarrow> char \<Rightarrow> bool) \<Rightarrow> string \<Rightarrow> string \<Rightarrow> bool" where
  "occurs eq p [] = starts_with eq p []"
| "occurs eq p (c # cs) = (starts_with eq p (c # cs) \<or> occurs eq p cs)"

definition icontains :: "string \<Rightarrow> string \<Rightarrow> bool" where
  "icontains p s = occurs (\<lambda>a b. lower a = lower b) p s"

text \<open>
  What is known of every regular-expression engine: a pattern with none of the
  metacharacters \<^verbatim>\<open>\ ^ $ . [ ] | ( ) ? * + { }\<close> is a valid pattern and stands for itself.
  With the option \<^verbatim>\<open>i\<close>, a pattern of plain ASCII characters is found in an ASCII
  string exactly when the string contains it, letter case aside. What the engine of the
  store does with every other pattern and string is its own (\<open>regex\<close>).
\<close>

definition metachars :: string where
  "metachars = CHR 0x5C # ''^$.[]|()?*+{}''"

definition ascii :: "char \<Rightarrow> bool" where
  "ascii c = (\<not> digit7 c)"

definition plain :: "string \<Rightarrow> bool" where
  "plain p = list_all (\<lambda>c. ascii c \<and> c \<notin> set metachars) p"

definition regex_accepts :: "database \<Rightarrow> string \<Rightarrow> string \<Rightarrow> bool" where
  "regex_accepts d p opts = (plain p \<or> regex d p opts \<noteq> None)"

definition regex_found :: "database \<Rightarrow> string \<Rightarrow> string \<Rightarrow> string \<Rightarrow> bool" where
  "regex_found d p opts t =
     (if plain p \<and> opts = ''i'' \<and> list_all ascii t then icontains p t
      else (case regex d p opts of None \<Rightarrow> False | Some m \<Rightarrow> m t))"

definition cond_ok :: "database \<Rightarrow> cond \<Rightarrow> bool" where
  "cond_ok d c = (case c of Is s \<Rightarrow> True | Regex p opts \<Rightarrow> regex_accepts d p opts)"

definition cond_holds :: "database \<Rightarrow> cond \<Rightarrow> val option \<Rightarrow> bool" where
  "cond_holds d c v =
     (case c of
        Is s \<Rightarrow> is_match s v
      | Regex p opts \<Rightarrow> regex_hit (regex_found d p opts) v)"

definition sub_holds :: "database \<Rightarrow> (string \<times> cond) list \<Rightarrow> document \<Rightarrow> bool" where
  "sub_holds d f x = list_all (\<lambda>(k, c). cond_holds d c (entries x k)) f"

definition clause_ok :: "database \<Rightarrow> clause \<Rightarrow> bool" where
  "clause_ok d cl =
     (case cl of
        Field k c \<Rightarrow> cond_ok d c
      | Or alts \<Rightarrow> list_all (list_all (\<lambda>(k, c). cond_ok d c)) alts)"

definition clause_holds :: "database \<Rightarrow> clause \<Rightarrow> document \<Rightarrow> bool" where
  "clause_holds d cl x =
     (case cl of
        Field k c \<Rightarrow> cond_holds d c (entries x k)
      | Or alts \<Rightarrow> list_ex (\<lambda>f. sub_holds d f x) alts)"

definition matches :: "database \<Rightarrow> filter \<Rightarrow> document \<Rightarrow> bool" where
  "matches d f x = list_all (\<lambda>cl. clause_holds d cl x) f"

text \<open>
  \<^verbatim>\<open>find(filter)\<close>: the documents of the collection that match, in store-native order.
  The server refuses a filter with a pattern its engine rejects.
\<close>

definition find_docs :: "string \<Rightarrow> filter \<Rightarrow> document list io" where
  "find_docs c f =
     with_store (\<lambda>d.
       if list_all (clause_ok d) f then (Inr (filter (matches d f) (docs_of d c)), d)
       else (Inl (Exception ''OperationFailure''), d))"

text \<open>
  \<^verbatim>\<open>update_one({"_id": i}, {"$set": sets})\<close>: the first document with that identifier
  gets the entries; with no such document nothing changes.
\<close>

fun update_first :: "('a \<Rightarrow> bool) \<Rightarrow> ('a \<Rightarrow> 'a) \<Rightarrow> 'a list \<Rightarrow> 'a list" where
  "update_first p f [] = []"
| "update_first p f (x # xs) = (if p x then f x # xs else x # update_first p f xs)"

definition set_entries :: "(string \<times> val) list \<Rightarrow> document \<Rightarrow> document" where
  "set_entries sets x = x\<lparr>entries := fold (\<lambda>(k, v) m. m(k \<mapsto> v)) sets (entries x)\<rparr>"

definition update_one :: "string \<Rightarrow> objectid \<Rightarrow> (string \<times> val) list \<Rightarrow> unit io" where
  "update_one c i sets =
     with_store (\<lambda>d.
       if list_ex (\<lambda>x. oid x = Some i) (docs_of d c)
       then (Inr (), d\<lparr>collections :=
               AList.update c
                 (update_first (\<lambda>x. oid x = Some i) (set_entries sets) (docs_of d c))
                 (collections d)\<rparr>)
       else (Inr (), d))"

section \<open>Floats\<close>

text \<open>
  A Python \<^verbatim>\<open>float\<close> is a binary64 number; the model holds the real number it
  denotes and rounds where Python rounds. \<open>binary64 x\<close> is the binary64 number nearest to
  \<open>x\<close>, a tie going to the even significand: \<open>exponent x\<close> is the power of two at or
  below \<open>\<bar>x\<bar>\<close>, the spacing of the numbers there is \<open>2 ^ (exponent - 52)\<close>, and not
  less than \<open>2 ^ - 1074\<close>. The two zeros are one number. Infinities and NaN are not
  values of the model: where Python raises \<^verbatim>\<open>OverflowError\<close> the model raises it; a sum
  of floats that leaves the range (an infinity in Python) is rounded as if the range had
  no end.
\<close>

fun ilog2 :: "nat \<Rightarrow> nat" where
  "ilog2 n = (if n < 2 then 0 else Suc (ilog2 (n div 2)))"

declare ilog2.simps [simp del]

definition exponent :: "real \<Rightarrow> int" where
  "exponent x =
     (if 1 \<le> \<bar>x\<bar> then int (ilog2 (nat \<lfloor>\<bar>x\<bar>\<rfloor>))
      else - int (ilog2 (nat (\<lceil>1 / \<bar>x\<bar>\<rceil> - 1))) - 1)"

definition pow2 :: "int \<Rightarrow> real" where
  "pow2 k = (if 0 \<le> k then 2 ^ nat k else 1 / 2 ^ nat (- k))"

definition round_half_even :: "real \<Rightarrow> int" where
  "round_half_even y =
     (let n = \<lfloor>y\<rfloor>; r = y - of_int n
      in if r < 1 / 2 then n else if 1 / 2 < r then n + 1 else if even n then n else n + 1)"

definition binary64 :: "real \<Rightarrow> real" where
  "binary64 x =
     (if x = 0 then 0
      else (let u = pow2 (max (exponent x) (- 1022) - 52)
            in of_int (round_half_even (x / u)) * u))"

text \<open>
  From this magnitude on a real number rounds beyond the largest binary64 number:
  \<^verbatim>\<open>float(i)\<close> and \<^verbatim>\<open>i / j\<close> on integers raise \<^verbatim>\<open>OverflowError\<close> there.
\<close>

definition overflow_at :: real where
  "overflow_at = 2 ^ 1024 - 2 ^ 970"

text \<open>A Python number: an \<^verbatim>\<open>int\<close>, unbounded, or a \<^verbatim>\<open>float\<close>.\<close>

datatype number = NInt int | NFloat real

definition num_of :: "val \<Rightarrow> number option" where
  "num_of v = (case v of VInt i \<Rightarrow> Some (NInt i) | VFloat x \<Rightarrow> Some (NFloat x) | _ \<Rightarrow> None)"

text \<open>\<^verbatim>\<open>float(i)\<close>, the conversion of an integer operand: correctly rounded.\<close>

definition to_float :: "int \<Rightarrow> exn + real" where
  "to_float i =
     (if overflow_at \<le> \<bar>real_of_int i\<bar> then Inl (Exception ''OverflowError'')
      else Inr (binary64 (real_of_int i)))"

text \<open>
  \<^verbatim>\<open>a + b\<close>: exact on two integers; with a float operand the other is converted and the
  sum rounded.
\<close>

definition py_add :: "number \<Rightarrow> number \<Rightarrow> exn + number" where
  "py_add a b =
     (case (a, b) of
        (NInt i, NInt j) \<Rightarrow> Inr (NInt (i + j))
      | (NInt i, NFloat y) \<Rightarrow>
          (case to_float i of Inl e \<Rightarrow> Inl e | Inr x \<Rightarrow> Inr (NFloat (binary64 (x + y))))
      | (NFloat x, NInt j) \<Rightarrow>
          (case to_float j of Inl e \<Rightarrow> Inl e | Inr y \<Rightarrow> Inr (NFloat (binary64 (x + y))))
      | (NFloat x, NFloat y) \<Rightarrow> Inr (NFloat (binary64 (x + y))))"

text \<open>
  \<^verbatim>\<open>a / n\<close> for a count \<open>n\<close>: on two integers the quotient of the exact values, correctly
  rounded; a float is divided by the converted count.
\<close>

definition py_truediv :: "number \<Rightarrow> nat \<Rightarrow> exn + real" where
  "py_truediv a n =
     (if n = 0 then Inl (Exception ''ZeroDivisionError'')
      else (case a of
        NInt i \<Rightarrow>
          (if overflow_at \<le> \<bar>real_of_int i / real n\<bar> then Inl (Exception ''OverflowError'')
           else Inr (binary64 (real_of_int i / real n)))
      | NFloat x \<Rightarrow>
          (case to_float (int n) of
             Inl e \<Rightarrow> Inl e
           | Inr y \<Rightarrow> Inr (binary64 (x / y)))))"

text \<open>
  \<^verbatim>\<open>round(x, 2)\<close> on a float: the exact value of \<open>x\<close> is rounded to the nearest
  hundredth, a tie going to the even one, and the float nearest to that decimal is the
  result.
\<close>

definition py_round2 :: "real \<Rightarrow> real" where
  "py_round2 x = binary64 (real_of_int (round_half_even (x * 100)) / 100)"

section \<open>Reviews\<close>

text \<open>
  Modelled from the spec: \<^verbatim>\<open>schemas.Review\<close> is not among the sources. The spec (data
  model) gives a review the fields coach_id, rating, text and created_at, the last one a
  timestamp the caller may leave out. The handler reads the attribute \<^verbatim>\<open>coach_id\<close> and
  calls \<^verbatim>\<open>model_dump()\<close>, which gives the dict of all the declared fields, an optional
  field that was left out with the value \<^verbatim>\<open>None\<close>. \<open>review_rest\<close> holds rating, text
  and any other field.
\<close>

record Review =
  coach_id :: string
  created_at :: "nat option"
  review_rest :: dict

definition model_dump :: "Review \<Rightarrow> dict" where
  "model_dump r = (review_rest r)
     (''coach_id'' \<mapsto> VStr (coach_id r),
      ''created_at'' \<mapsto> (case created_at r of None \<Rightarrow> VNone | Some t \<Rightarrow> VTime t))"

text \<open>\<^verbatim>\<open>dict.setdefault(k, v)\<close>: the key is set only when the dict does not have it.\<close>

definition setdefault :: "string \<Rightarrow> val \<Rightarrow> dict \<Rightarrow> dict" where
  "setdefault k v m = (case m k of None \<Rightarrow> m(k \<mapsto> v) | Some w \<Rightarrow> m)"

text \<open>\<^verbatim>\<open>r.get("rating", 0)\<close>.\<close>

definition rating_of :: "document \<Rightarrow> val" where
  "rating_of r = (case entries r ''rating'' of None \<Rightarrow> VInt 0 | Some v \<Rightarrow> v)"

text \<open>
  \<^verbatim>\<open>sum(...)\<close>: from the integer 0, left to right; adding a value that is not a number
  is a \<^verbatim>\<open>TypeError\<close>. A sum of integers is exact. (Each float addition is rounded; CPython
  from 3.12 on also compensates the rounding errors of a sum of floats, which the model
  does not.)
\<close>

fun py_sum :: "number \<Rightarrow> val list \<Rightarrow> exn + number" where
  "py_sum acc [] = Inr acc"
| "py_sum acc (v # vs) =
     (case num_of v of
        None \<Rightarrow> Inl (Exception ''TypeError'')
      | Some x \<Rightarrow> (case py_add acc x of Inl e \<Rightarrow> Inl e | Inr acc' \<Rightarrow> py_sum acc' vs))"

text \<open>The body of the \<^verbatim>\<open>try\<close> of \<^verbatim>\<open>create_review\<close>: the coach's aggregates.\<close>

definition update_aggregates :: "Review \<Rightarrow> unit io" where
  "update_aggregates review =
     io_bind (io_lift (ObjectId (coach_id review))) (\<lambda>coach_oid.
     io_bind (find_docs ''review'' [Field ''coach_id'' (Is (coach_id review))]) (\<lambda>reviews.
     if reviews \<noteq> [] then
       io_bind (io_lift (py_sum (NInt 0) (map rating_of reviews))) (\<lambda>total.
       io_bind (io_lift (py_truediv total (length reviews))) (\<lambda>avg.
       update_one ''coach'' coach_oid
         [(''average_rating'', VFloat (py_round2 avg)),
          (''review_count'', VInt (int (length reviews)))]))
     else io_return ()))"

text \<open>\<^verbatim>\<open>create_review\<close>; \<open>now\<close> is \<^verbatim>\<open>datetime.utcnow()\<close>.\<close>

definition create_review :: "nat \<Rightarrow> objectid \<Rightarrow> Review \<Rightarrow> response io" where
  "create_review now new review =
     io_bind (create_document new ''review''
               (setdefault ''created_at'' (VTime now) (model_dump review))) (\<lambda>review_id.
     io_bind (try_except (update_aggregates review) (\<lambda>e. io_return ())) (\<lambda>_.
     io_return (Ident review_id)))"






text \<open>The review document that \<^verbatim>\<open>create_review\<close> hands to the store.\<close>

definition new_review :: "nat \<Rightarrow> objectid \<Rightarrow> Review \<Rightarrow> document" where
  "new_review now new r =
     \<lparr>oid = Some new, entries = setdefault ''created_at'' (VTime now) (model_dump r)\<rparr>"


section \<open>Coaches: search\<close>


text \<open>\<^verbatim>\<open>if query.sport:\<close> holds for a string that is given and not empty.\<close>

definition truthy :: "string option \<Rightarrow> bool" where
  "truthy x = (case x of None \<Rightarrow> False | Some s \<Rightarrow> s \<noteq> [])"



text \<open>\<^verbatim>\<open>c["id"] = str(c.get("_id")); c.pop("_id", None)\<close>.\<close>

definition str_id :: "objectid option \<Rightarrow> string" where
  "str_id i = (case i of None \<Rightarrow> ''None'' | Some j \<Rightarrow> str_oid j)"

definition rename_id :: "document \<Rightarrow> document" where
  "rename_id c = c\<lparr>entries := (entries c)(''id'' \<mapsto> VStr (str_id (oid c))), oid := None\<rparr>"






section \<open>Lists of reviews and bookings\<close>

text \<open>
  \<^verbatim>\<open>.sort("created_at", -1)\<close>: the store orders values by kind (a missing field and null
  first, then numbers, then strings, dates last), within a kind by value; an array is
  placed by its largest element. The key of a value places it in that order. Documents
  with equal keys keep their store-native order.
\<close>

fun bson_key :: "val \<Rightarrow> nat \<times> real \<times> string" where
  "bson_key VNone = (1, 0, [])"
| "bson_key (VInt i) = (2, of_int i, [])"
| "bson_key (VFloat x) = (2, x, [])"
| "bson_key (VStr s) = (3, 0, s)"
| "bson_key (VTime t) = (9, real t, [])"
| "bson_key (VList vs) = fold max (map bson_key vs) (0, 0, [])"

definition sort_key :: "string \<Rightarrow> document \<Rightarrow> nat \<times> real \<times> string" where
  "sort_key k x = (case entries x k of None \<Rightarrow> bson_key VNone | Some v \<Rightarrow> bson_key v)"

fun insert_desc :: "string \<Rightarrow> document \<Rightarrow> document list \<Rightarrow> document list" where
  "insert_desc k x [] = [x]"
| "insert_desc k x (y # ys) =
     (if sort_key k y \<le> sort_key k x then x # y # ys else y # insert_desc k x ys)"

definition sort_desc :: "string \<Rightarrow> document list \<Rightarrow> document list" where
  "sort_desc k xs = foldr (insert_desc k) xs []"

definition find_sorted :: "string \<Rightarrow> filter \<Rightarrow> string \<Rightarrow> document list io" where
  "find_sorted c f k = io_bind (find_docs c f) (\<lambda>ds. io_return (sort_desc k ds))"

definition list_reviews :: "string \<Rightarrow> response io" where
  "list_reviews cid =
     io_bind (find_sorted ''review'' [Field ''coach_id'' (Is cid)] ''created_at'') (\<lambda>items.
     io_return (Items (map rename_id items)))"

definition list_bookings_for_coach :: "string \<Rightarrow> response io" where
  "list_bookings_for_coach cid =
     io_bind (find_sorted ''booking'' [Field ''coach_id'' (Is cid)] ''created_at'') (\<lambda>items.
     io_return (Items (map rename_id items)))"

text \<open>The documents of a collection that reference a coach.\<close>

definition referencing :: "string \<Rightarrow> string \<Rightarrow> database \<Rightarrow> document list" where
  "referencing c cid d = filter (\<lambda>x. is_match cid (entries x ''coach_id'')) (docs_of d c)"

text \<open>Newest first: no later item has a greater \<^verbatim>\<open>created_at\<close>.\<close>

definition newest_first :: "document list \<Rightarrow> bool" where
  "newest_first xs = sorted_wrt (\<lambda>a b. sort_key ''created_at'' b \<le> sort_key ''created_at'' a) xs"

section \<open>Diagnostics\<close>

text \<open>
  The status marks of \<^verbatim>\<open>test_database\<close>, as their UTF-8 bytes: the check mark
  (U+2705), the cross (U+274C) and the warning sign (U+26A0 U+FE0F). The text of an
  exception is a string of one-byte characters.
\<close>

definition check_mark :: string where
  "check_mark = [CHR 0xE2, CHR 0x9C, CHR 0x85]"

definition cross_mark :: string where
  "cross_mark = [CHR 0xE2, CHR 0x9D, CHR 0x8C]"

definition warning_sign :: string where
  "warning_sign = [CHR 0xE2, CHR 0x9A, CHR 0xA0, CHR 0xEF, CHR 0xB8, CHR 0x8F]"

text \<open>
  \<^verbatim>\<open>str(e)\<close> of an error of the driver is its message. (No \<^verbatim>\<open>HTTPException\<close> is raised
  inside \<^verbatim>\<open>test_database\<close>; for the function to be total its text is taken to be its
  detail.)
\<close>

definition str_exn :: "exn \<Rightarrow> string" where
  "str_exn e = (case e of Exception m \<Rightarrow> m | HTTPException c detail \<Rightarrow> detail)"

definition list_collection_names :: "string list io" where
  "list_collection_names = with_store (\<lambda>d. (Inr (map fst (collections d)), d))"

text \<open>\<^verbatim>\<open>response[k] = v\<close> on a dict that has the key.\<close>

definition setitem :: "string \<Rightarrow> val \<Rightarrow> (string \<times> val) list \<Rightarrow> (string \<times> val) list" where
  "setitem k v r = AList.update k v r"

text \<open>
  The body of the outer \<^verbatim>\<open>try\<close>, on the dict \<^verbatim>\<open>response\<close>: it gives the exception that
  leaves it, if any, and the dict as it stands then. \<open>database_url\<close> is
  \<^verbatim>\<open>os.getenv("DATABASE_URL")\<close>. The inner \<^verbatim>\<open>try\<close> is around
  \<^verbatim>\<open>list_collection_names\<close>.
\<close>

definition test_database_body ::
  "string option \<Rightarrow> (string \<times> val) list \<Rightarrow> database option
     \<Rightarrow> exn option \<times> (string \<times> val) list" where
  "test_database_body database_url response0 s =
     (case s of
        Some d \<Rightarrow>
          (let response1 = setitem ''database'' (VStr (check_mark @ '' Available'')) response0;
               response2 = setitem ''database_url''
                 (VStr (if truthy database_url then check_mark @ '' Set''
                        else cross_mark @ '' Not Set'')) response1;
               response3 = setitem ''database_name''
                 (VStr (case name d of Some n \<Rightarrow> n | None \<Rightarrow> check_mark @ '' Connected''))
                 response2;
               response4 = setitem ''connection_status'' (VStr ''Connected'') response3
           in (case fst (list_collection_names s) of
                 Inr names \<Rightarrow>
                   (None,
                    setitem ''database'' (VStr (check_mark @ '' Connected & Working''))
                      (setitem ''collections'' (VList (map VStr (take 10 names)))
                         response4))
               | Inl e \<Rightarrow>
                   (None,
                    setitem ''database''
                      (VStr (warning_sign @ ''  Connected but Error: '' @ take 80 (str_exn e)))
                      response4)))
      | None \<Rightarrow>
          (None,
           setitem ''database'' (VStr (warning_sign @ ''  Available but not initialized''))
             response0))"

definition test_database :: "string option \<Rightarrow> response io" where
  "test_database database_url =
     (\<lambda>s. let response =
              [(''backend'', VStr (check_mark @ '' Running'')),
               (''database'', VStr (cross_mark @ '' Not Available'')),
               (''database_url'', VNone),
               (''database_name'', VNone),
               (''connection_status'', VStr ''Not Connected''),
               (''collections'', VList [])]
          in (case test_database_body database_url response s of
                (None, response') \<Rightarrow> (Inr (Dict response'), s)
              | (Some e, response') \<Rightarrow>
                  (Inr (Dict (setitem ''database''
                     (VStr (cross_mark @ '' Error: '' @ take 80 (str_exn e))) response')), s)))"

section \<open>Example stores\<close>

text \<open>
  An engine for the examples. It accepts the patterns made of letters, digits, spaces and
  dots, with the option \<^verbatim>\<open>i\<close>: a dot stands for any character but a line feed, every
  other character for itself in either case. It rejects every other pattern.
\<close>

definition plain_char :: "char \<Rightarrow> bool" where
  "plain_char c =
     (c \<in> set ''abcdefghijklmnopqrstuvwxyzABCDEFGHIJKLMNOPQRSTUVWXYZ0123456789 '')"

definition wild :: "char \<Rightarrow> char \<Rightarrow> bool" where
  "wild a b = ((a = CHR ''.'' \<and> b \<noteq> CHR 0x0A) \<or> lower a = lower b)"

definition example_regex :: "string \<Rightarrow> string \<Rightarrow> (string \<Rightarrow> bool) option" where
  "example_regex p opts =
     (if list_all (\<lambda>c. plain_char c \<or> c = CHR ''.'') p \<and> opts = ''i''
      then Some (occurs wild p) else None)"

definition empty_db :: database where
  "empty_db =
     \<lparr>name = Some ''marketplace'', collections = [], fault = None, regex = example_regex\<rparr>"

definition oid1 :: objectid where
  "oid1 = OID ''507f1f77bcf86cd799439011''"

definition oid2 :: objectid where
  "oid2 = OID ''507f1f77bcf86cd799439012''"

definition oid3 :: objectid where
  "oid3 = OID ''507f1f77bcf86cd799439013''"

definition booking_of :: "string \<Rightarrow> int option \<Rightarrow> Booking" where
  "booking_of t a = \<lparr>user_type = t, athlete_age = a, booking_rest = Map.empty\<rparr>"

text \<open>A store with one coach and one review of that coach.\<close>

definition coach1 :: document where
  "coach1 = \<lparr>oid = Some oid1, entries =
     [''full_name'' \<mapsto> VStr ''Ann Lee'', ''bio'' \<mapsto> VStr ''Tennis coach'',
      ''sports'' \<mapsto> VList [VStr ''tennis''], ''location_city'' \<mapsto> VStr ''Austin'',
      ''location_state'' \<mapsto> VStr ''TX'']\<rparr>"

definition review1 :: document where
  "review1 = \<lparr>oid = Some oid2, entries =
     [''coach_id'' \<mapsto> VStr ''507f1f77bcf86cd799439011'', ''rating'' \<mapsto> VInt 4,
      ''created_at'' \<mapsto> VTime 5]\<rparr>"

definition db1 :: database where
  "db1 = \<lparr>name = Some ''marketplace'',
     collections = [(''coach'', [coach1]), (''review'', [review1])],
     fault = None, regex = example_regex\<rparr>"

text \<open>A review request that leaves created_at out.\<close>

definition review_in :: "string \<Rightarrow> int \<Rightarrow> Review" where
  "review_in cid n =
     \<lparr>coach_id = cid, created_at = None, review_rest = [''rating'' \<mapsto> VInt n]\<rparr>"




text \<open>A store with more reviews, one of another coach, and a booking.\<close>

definition review2 :: document where
  "review2 = \<lparr>oid = Some oid3, entries =
     [''coach_id'' \<mapsto> VStr ''507f1f77bcf86cd799439011'', ''rating'' \<mapsto> VInt 5,
      ''created_at'' \<mapsto> VTime 9]\<rparr>"

definition review_other :: document where
  "review_other = \<lparr>oid = Some (OID ''507f1f77bcf86cd799439014''), entries =
     [''coach_id'' \<mapsto> VStr ''507f1f77bcf86cd799439099'', ''rating'' \<mapsto> VInt 1,
      ''created_at'' \<mapsto> VTime 7]\<rparr>"

definition booking1 :: document where
  "booking1 = \<lparr>oid = Some (OID ''507f1f77bcf86cd799439015''), entries =
     [''coach_id'' \<mapsto> VStr ''507f1f77bcf86cd799439011'', ''user_type'' \<mapsto> VStr ''adult'',
      ''athlete_age'' \<mapsto> VNone, ''created_at'' \<mapsto> VTime 3]\<rparr>"

definition db2 :: database where
  "db2 = \<lparr>name = Some ''marketplace'',
     collections = [(''coach'', [coach1]), (''review'', [review1, review_other, review2]),
                    (''booking'', [booking1])],
     fault = None, regex = example_regex\<rparr>"


text \<open>A store whose server cannot be reached.\<close>

definition down_db :: database where
  "down_db = \<lparr>name = Some ''marketplace'', collections = [],
     fault = Some ''connection refused'', regex = example_regex\<rparr>"



section \<open>Bookings: lemmas and claims\<close>

lemma booking_check_fails:
  "check_fails b \<Longrightarrow> booking_check b s = (Inl (HTTPException 400 (check_reason b)), s)"
  by (auto simp: check_fails_def booking_check_def check_reason_def io_raise_def
      split: option.splits if_splits)

lemma booking_check_pass:
  "\<not> check_fails b \<Longrightarrow> booking_check b s = (Inr (), s)"
  by (auto simp: check_fails_def booking_check_def io_return_def
      split: option.splits if_splits)

lemma create_document_available:
  "fault d = None \<Longrightarrow>
   create_document new c data (Some d) =
     (Inr (str_oid new), Some (insert_one c \<lparr>oid = Some new, entries = data\<rparr> d))"
  by (simp add: create_document_def with_store_def)

lemma create_booking_pass:
  "\<not> check_fails b \<Longrightarrow> fault d = None \<Longrightarrow>
   create_booking new b (Some d) =
     (Inr (Ident (str_oid new)),
      Some (insert_one ''booking'' \<lparr>oid = Some new, entries = booking_dump b\<rparr> d))"
  by (simp add: create_booking_def io_bind_def booking_check_pass create_document_available
      io_return_def)

lemma create_booking_reject:
  "check_fails b \<Longrightarrow>
   create_booking new b s = (Inl (HTTPException 400 (check_reason b)), s)"
  by (simp add: create_booking_def io_bind_def booking_check_fails)

lemma violation_fails_check: "violates_age_rule b \<Longrightarrow> check_fails b"
  by (auto simp: violates_age_rule_def check_fails_def)

text \<open>
  C2. A booking with user_type "adult" and athlete_age 17 is rejected with 400; "adult"
  and 25 is accepted; "parent" and 12 is accepted; "parent" with athlete_age absent is
  rejected; "parent" and 20 is rejected. Rejected: the handler raises HTTPException 400
  and the store is as before, whatever its state. Accepted: on a reachable store the
  booking is inserted and its identifier returned.
\<close>

theorem C2_booking_examples:
  "(user_type b = ''adult'' \<and> athlete_age b = Some 17 \<longrightarrow>
      create_booking new b s = (Inl (HTTPException 400 ''Adults must be 18+''), s))
   \<and> (user_type b = ''adult'' \<and> athlete_age b = Some 25 \<and> fault d = None \<longrightarrow>
        create_booking new b (Some d)
          = (Inr (Ident (str_oid new)),
             Some (insert_one ''booking'' \<lparr>oid = Some new, entries = booking_dump b\<rparr> d)))
   \<and> (user_type b = ''parent'' \<and> athlete_age b = Some 12 \<and> fault d = None \<longrightarrow>
        create_booking new b (Some d)
          = (Inr (Ident (str_oid new)),
             Some (insert_one ''booking'' \<lparr>oid = Some new, entries = booking_dump b\<rparr> d)))
   \<and> (user_type b = ''parent'' \<and> athlete_age b = None \<longrightarrow>
        create_booking new b s
          = (Inl (HTTPException 400
               ''Provide athlete_age for parent bookings and must be < 18''), s))
   \<and> (user_type b = ''parent'' \<and> athlete_age b = Some 20 \<longrightarrow>
        create_booking new b s
          = (Inl (HTTPException 400
               ''Provide athlete_age for parent bookings and must be < 18''), s))"
proof -
  have rejected: "check_fails b \<Longrightarrow>
      create_booking new b s = (Inl (HTTPException 400 (check_reason b)), s)"
    by (rule create_booking_reject)
  have accepted: "\<not> check_fails b \<Longrightarrow> fault d = None \<Longrightarrow>
      create_booking new b (Some d)
        = (Inr (Ident (str_oid new)),
           Some (insert_one ''booking'' \<lparr>oid = Some new, entries = booking_dump b\<rparr> d))"
    by (rule create_booking_pass)
  show ?thesis
    using rejected accepted by (simp add: check_fails_def check_reason_def)
qed

theorem C2_booking_examples_witness:
  "fault empty_db = None
   \<and> create_booking oid1 (booking_of ''adult'' (Some 17)) (Some empty_db)
     = (Inl (HTTPException 400 ''Adults must be 18+''), Some empty_db)
   \<and> fst (create_booking oid1 (booking_of ''adult'' (Some 25)) (Some empty_db))
     = Inr (Ident ''507f1f77bcf86cd799439011'')
   \<and> fst (create_booking oid1 (booking_of ''parent'' (Some 12)) (Some empty_db))
     = Inr (Ident ''507f1f77bcf86cd799439011'')
   \<and> create_booking oid1 (booking_of ''parent'' None) (Some empty_db)
     = (Inl (HTTPException 400
          ''Provide athlete_age for parent bookings and must be < 18''), Some empty_db)
   \<and> create_booking oid1 (booking_of ''parent'' (Some 20)) (Some empty_db)
     = (Inl (HTTPException 400
          ''Provide athlete_age for parent bookings and must be < 18''), Some empty_db)"
  using C2_booking_examples [of "booking_of ''adult'' (Some 17)" oid1 "Some empty_db" empty_db]
    C2_booking_examples [of "booking_of ''adult'' (Some 25)" oid1 "Some empty_db" empty_db]
    C2_booking_examples [of "booking_of ''parent'' (Some 12)" oid1 "Some empty_db" empty_db]
    C2_booking_examples [of "booking_of ''parent'' None" oid1 "Some empty_db" empty_db]
    C2_booking_examples [of "booking_of ''parent'' (Some 20)" oid1 "Some empty_db" empty_db]
  by (simp add: booking_of_def empty_db_def oid1_def str_oid_def)

text \<open>
  C5. A booking-creation request that violates the adult/parent age rule fails with a 400
  client error carrying a human-readable reason (``Adults must be 18+'' for an adult, the
  age-requirement message for a parent), and the store is unchanged: the check runs
  before the insert.
\<close>

theorem C5_rejected_before_persistence:
  "violates_age_rule b \<Longrightarrow>
   create_booking new b s
     = (Inl (HTTPException 400
          (if user_type b = ''adult'' then ''Adults must be 18+''
           else ''Provide athlete_age for parent bookings and must be < 18'')), s)"
  using create_booking_reject [OF violation_fails_check, of b new s]
  by (simp add: check_reason_def)

theorem C5_rejected_before_persistence_witness:
  "violates_age_rule (booking_of ''adult'' (Some 17))
   \<and> create_booking oid1 (booking_of ''adult'' (Some 17)) (Some empty_db)
     = (Inl (HTTPException 400 ''Adults must be 18+''), Some empty_db)"
proof -
  have v: "violates_age_rule (booking_of ''adult'' (Some 17))"
    by (simp add: violates_age_rule_def booking_of_def)
  show ?thesis
    using v C5_rejected_before_persistence [OF v, of oid1 "Some empty_db"]
    by (simp add: booking_of_def)
qed

text \<open>
  C10. For a user_type that is any string other than exactly "adult", the parent rule is
  applied: the request is rejected with 400 unless athlete_age is present and strictly
  less than 18 (and then, on a reachable store, it is persisted); a booking with
  user_type "adult" and athlete_age absent is accepted.
\<close>

theorem C10_non_adult_is_parent_rule:
  "(user_type b \<noteq> ''adult'' \<longrightarrow>
      (case athlete_age b of
         None \<Rightarrow> create_booking new b s
           = (Inl (HTTPException 400
                ''Provide athlete_age for parent bookings and must be < 18''), s)
       | Some a \<Rightarrow>
           if a < 18 then
             (fault d = None \<longrightarrow> create_booking new b (Some d)
                = (Inr (Ident (str_oid new)),
                   Some (insert_one ''booking''
                     \<lparr>oid = Some new, entries = booking_dump b\<rparr> d)))
           else create_booking new b s
             = (Inl (HTTPException 400
                  ''Provide athlete_age for parent bookings and must be < 18''), s)))
   \<and> (user_type b = ''adult'' \<longrightarrow> athlete_age b = None \<longrightarrow> fault d = None \<longrightarrow>
        create_booking new b (Some d)
          = (Inr (Ident (str_oid new)),
             Some (insert_one ''booking'' \<lparr>oid = Some new, entries = booking_dump b\<rparr> d)))"
proof -
  have rej: "check_fails b \<Longrightarrow> user_type b \<noteq> ''adult'' \<Longrightarrow>
      create_booking new b s = (Inl (HTTPException 400
        ''Provide athlete_age for parent bookings and must be < 18''), s)"
    using create_booking_reject [of b new s] by (simp add: check_reason_def)
  show ?thesis
    using rej create_booking_pass [of b d new]
    by (auto simp: check_fails_def split: option.splits)
qed

theorem C10_non_adult_is_parent_rule_witness:
  "create_booking oid1 (booking_of ''guardian'' (Some 30)) (Some empty_db)
     = (Inl (HTTPException 400
          ''Provide athlete_age for parent bookings and must be < 18''), Some empty_db)
   \<and> fst (create_booking oid1 (booking_of ''guardian'' (Some 9)) (Some empty_db))
     = Inr (Ident ''507f1f77bcf86cd799439011'')
   \<and> fst (create_booking oid1 (booking_of ''adult'' None) (Some empty_db))
     = Inr (Ident ''507f1f77bcf86cd799439011'')"
  using C10_non_adult_is_parent_rule [of "booking_of ''guardian'' (Some 30)" oid1
      "Some empty_db" empty_db]
    C10_non_adult_is_parent_rule [of "booking_of ''guardian'' (Some 9)" oid1
      "Some empty_db" empty_db]
    C10_non_adult_is_parent_rule [of "booking_of ''adult'' None" oid1
      "Some empty_db" empty_db]
  by (simp add: booking_of_def empty_db_def oid1_def str_oid_def)

section \<open>Claims about fetching a coach\<close>

lemma get_coach_malformed:
  "ObjectId cid = Inl e \<Longrightarrow>
   get_coach cid s = (Inl (HTTPException 400 ''Invalid coach id''), s)"
  by (cases s)
    (simp_all add: get_coach_def try_except_def io_bind_def db_getitem_def io_lift_def
      io_raise_def)

lemma get_coach_absent:
  "ObjectId cid = Inr i \<Longrightarrow> fault d = None \<Longrightarrow>
   List.find (\<lambda>x. oid x = Some i) (docs_of d ''coach'') = None \<Longrightarrow>
   get_coach cid (Some d) = (Inl (HTTPException 400 ''Invalid coach id''), Some d)"
  by (simp add: get_coach_def try_except_def io_bind_def db_getitem_def io_lift_def
      io_raise_def find_one_def with_store_def)

lemma get_coach_never_404:
  "fst (get_coach cid s) \<noteq> Inl (HTTPException 404 detail)"
  by (auto simp: get_coach_def try_except_def io_raise_def split: prod.splits sum.splits)

text \<open>
  C1. The claim: a malformed identifier gives 400, and a well-formed identifier that
  matches no coach gives 404. The code at a well-formed identifier and a store with no
  coach: the 404 raised inside the \<^verbatim>\<open>try\<close> is caught by its own
  \<^verbatim>\<open>except Exception\<close>, and the handler answers 400 ``Invalid coach id''.
\<close>

theorem C1_absent_coach_answers_400:
  "ObjectId ''507f1f77bcf86cd799439011'' = Inr oid1
   \<and> List.find (\<lambda>x. oid x = Some oid1) (docs_of empty_db ''coach'') = None
   \<and> get_coach ''507f1f77bcf86cd799439011'' (Some empty_db)
       = (Inl (HTTPException 400 ''Invalid coach id''), Some empty_db)"
proof -
  have wf: "ObjectId ''507f1f77bcf86cd799439011'' = Inr oid1"
    by (simp add: ObjectId_def oid1_def is_hex_def lower_def)
  have absent: "List.find (\<lambda>x. oid x = Some oid1) (docs_of empty_db ''coach'') = None"
    by (simp add: docs_of_def empty_db_def)
  have ok: "fault empty_db = None"
    by (simp add: empty_db_def)
  show ?thesis
    using wf absent get_coach_absent [OF wf ok absent] by simp
qed

section \<open>Floats and reviews: lemmas and claims\<close>

























lemma matches_coach_id:
  "matches d [Field ''coach_id'' (Is cid)] x = is_match cid (entries x ''coach_id'')"
  by (simp add: matches_def clause_holds_def cond_holds_def)


lemma create_review_result:
  "fault d = None \<Longrightarrow>
   create_review now new r (Some d) =
     (Inr (Ident (str_oid new)),
      snd (try_except (update_aggregates r) (\<lambda>e. io_return ())
             (Some (insert_one ''review'' (new_review now new r) d))))"
  by (simp add: create_review_def io_bind_def create_document_available new_review_def
      io_return_def try_except_def split: prod.splits sum.splits)







lemma update_aggregates_invalid_id:
  "ObjectId (coach_id r) = Inl e \<Longrightarrow> update_aggregates r s = (Inl e, s)"
  by (simp add: update_aggregates_def io_bind_def io_lift_def)

lemma update_aggregates_raise_state:
  "update_aggregates r s = (Inl e, s') \<Longrightarrow> s' = s"
  by (auto simp: update_aggregates_def io_bind_def io_lift_def find_docs_def update_one_def
      with_store_def io_return_def split: sum.splits prod.splits option.splits if_splits)


lemma create_review_skipped:
  assumes av: "fault d = None"
    and fail: "update_aggregates r (Some (insert_one ''review'' (new_review now new r) d)) = (Inl e, s)"
  shows "create_review now new r (Some d)
     = (Inr (Ident (str_oid new)), Some (insert_one ''review'' (new_review now new r) d))"
proof -
  have "s = Some (insert_one ''review'' (new_review now new r) d)"
    using fail by (rule update_aggregates_raise_state)
  then show ?thesis
    using create_review_result [OF av, of now new r] fail
    by (simp add: try_except_def io_return_def)
qed








text \<open>
  C4. On a reachable store, review creation returns the new review's id whatever happens
  in the aggregate update. If the coach_id is not a valid store identifier, or the
  aggregate update raises for any reason, the update is skipped: the store is the one
  with the review inserted and nothing else changed.
\<close>

theorem C4_review_survives_skipped_aggregate:
  assumes "fault d = None"
  shows "fst (create_review now new r (Some d)) = Inr (Ident (str_oid new))
    \<and> (\<forall>e. ObjectId (coach_id r) = Inl e \<longrightarrow>
          snd (create_review now new r (Some d))
            = Some (insert_one ''review'' (new_review now new r) d))
    \<and> (\<forall>e s. update_aggregates r (Some (insert_one ''review'' (new_review now new r) d))
                = (Inl e, s) \<longrightarrow>
          snd (create_review now new r (Some d))
            = Some (insert_one ''review'' (new_review now new r) d))"
proof -
  have a: "fst (create_review now new r (Some d)) = Inr (Ident (str_oid new))"
    using create_review_result [OF assms, of now new r] by simp
  have c: "\<And>e s. update_aggregates r (Some (insert_one ''review'' (new_review now new r) d))
                = (Inl e, s) \<Longrightarrow>
          snd (create_review now new r (Some d))
            = Some (insert_one ''review'' (new_review now new r) d)"
    using create_review_skipped [OF assms] by simp
  have b: "\<And>e. ObjectId (coach_id r) = Inl e \<Longrightarrow>
          snd (create_review now new r (Some d))
            = Some (insert_one ''review'' (new_review now new r) d)"
    using c update_aggregates_invalid_id by blast
  show ?thesis
    using a b c by blast
qed


lemma db1_facts:
  "fault db1 = None"
  "docs_of db1 ''coach'' = [coach1]"
  "docs_of db1 ''review'' = [review1]"
  "regex db1 = example_regex"
  by (simp_all add: db1_def docs_of_def)


theorem C4_review_survives_skipped_aggregate_witness:
  "fault db1 = None
   \<and> ObjectId (coach_id (review_in ''nobody'' 5)) = Inl (Exception ''InvalidId'')
   \<and> create_review 9 oid3 (review_in ''nobody'' 5) (Some db1)
     = (Inr (Ident ''507f1f77bcf86cd799439013''),
        Some (insert_one ''review'' (new_review 9 oid3 (review_in ''nobody'' 5)) db1))"
proof -
  have bad: "ObjectId (coach_id (review_in ''nobody'' 5)) = Inl (Exception ''InvalidId'')"
    by (simp add: review_in_def ObjectId_def)
  show ?thesis
    using C4_review_survives_skipped_aggregate [OF db1_facts(1), of 9 oid3 "review_in ''nobody'' 5"]
      bad db1_facts(1)
    by (cases "create_review 9 oid3 (review_in ''nobody'' 5) (Some db1)")
      (simp add: oid3_def str_oid_def)
qed







section \<open>Lists, diagnostics and search: lemmas and claims\<close>

lemma mset_insert_desc: "mset (insert_desc k x ys) = add_mset x (mset ys)"
  by (induction ys) auto

lemma set_insert_desc: "set (insert_desc k x ys) = insert x (set ys)"
  by (induction ys) auto

lemma sorted_insert_desc:
  "sorted_wrt (\<lambda>a b. sort_key k b \<le> sort_key k a) ys \<Longrightarrow>
   sorted_wrt (\<lambda>a b. sort_key k b \<le> sort_key k a) (insert_desc k x ys)"
proof (induction ys)
  case Nil
  then show ?case by simp
next
  case (Cons y ys)
  show ?case
  proof (cases "sort_key k y \<le> sort_key k x")
    case True
    then have "\<forall>z\<in>set ys. sort_key k z \<le> sort_key k x"
      using Cons.prems by auto
    with True Cons.prems show ?thesis by simp
  next
    case False
    then have "sort_key k x \<le> sort_key k y" by simp
    with False Cons show ?thesis
      by (auto simp: set_insert_desc)
  qed
qed

lemma mset_sort_desc: "mset (sort_desc k xs) = mset xs"
  by (induction xs) (auto simp: sort_desc_def mset_insert_desc)

lemma sorted_sort_desc: "sorted_wrt (\<lambda>a b. sort_key k b \<le> sort_key k a) (sort_desc k xs)"
  by (induction xs) (auto simp: sort_desc_def sorted_insert_desc)

lemma sort_key_rename_id: "sort_key ''created_at'' (rename_id x) = sort_key ''created_at'' x"
  by (simp add: sort_key_def rename_id_def)

lemma newest_first_sort_desc: "newest_first (map rename_id (sort_desc ''created_at'' xs))"
  using sorted_sort_desc [of "''created_at''" xs]
  by (simp add: newest_first_def sorted_wrt_map sort_key_rename_id)

lemma find_sorted_coach_id:
  "fault d = None \<Longrightarrow>
   find_sorted c [Field ''coach_id'' (Is cid)] k (Some d)
     = (Inr (sort_desc k (referencing c cid d)), Some d)"
  by (simp add: find_sorted_def find_docs_def with_store_def io_bind_def io_return_def
      clause_ok_def cond_ok_def referencing_def matches_coach_id [abs_def])

lemma rename_id_pinned:
  "oid (rename_id x) = None
   \<and> entries (rename_id x)
     = (entries x)(''id'' \<mapsto> VStr (case oid x of None \<Rightarrow> ''None'' | Some (OID h) \<Rightarrow> h))"
  by (cases "oid x")
    (auto simp: rename_id_def str_id_def str_oid_def split: objectid.splits)

lemma renamed_all:
  "list_all2 (\<lambda>x y. oid y = None
      \<and> entries y
        = (entries x)(''id'' \<mapsto> VStr (case oid x of None \<Rightarrow> ''None'' | Some (OID h) \<Rightarrow> h)))
     xs (map rename_id xs)"
  unfolding list_all2_map2 list_all2_same using rename_id_pinned by blast

text \<open>
  C7. On a reachable store, for every coach_id, the review-list and the booking-list
  endpoints return all the reviews (respectively bookings) referencing that coach_id, each
  once, ordered by created_at descending (newest first). Each returned item is its
  document with the store identifier removed and given, as its string, under "id".
\<close>

theorem C7_lists_newest_first:
  assumes "fault d = None"
  shows "(\<exists>ds items. list_reviews cid (Some d) = (Inr (Items items), Some d)
            \<and> mset ds = mset (referencing ''review'' cid d)
            \<and> newest_first items
            \<and> list_all2 (\<lambda>x y. oid y = None
                 \<and> entries y = (entries x)(''id'' \<mapsto>
                      VStr (case oid x of None \<Rightarrow> ''None'' | Some (OID h) \<Rightarrow> h)))
                 ds items)
       \<and> (\<exists>ds items. list_bookings_for_coach cid (Some d) = (Inr (Items items), Some d)
            \<and> mset ds = mset (referencing ''booking'' cid d)
            \<and> newest_first items
            \<and> list_all2 (\<lambda>x y. oid y = None
                 \<and> entries y = (entries x)(''id'' \<mapsto>
                      VStr (case oid x of None \<Rightarrow> ''None'' | Some (OID h) \<Rightarrow> h)))
                 ds items)"
proof -
  have "list_reviews cid (Some d)
      = (Inr (Items (map rename_id (sort_desc ''created_at'' (referencing ''review'' cid d)))),
         Some d)"
    by (simp add: list_reviews_def io_bind_def io_return_def find_sorted_coach_id [OF assms])
  moreover have "list_bookings_for_coach cid (Some d)
      = (Inr (Items (map rename_id (sort_desc ''created_at'' (referencing ''booking'' cid d)))),
         Some d)"
    by (simp add: list_bookings_for_coach_def io_bind_def io_return_def
        find_sorted_coach_id [OF assms])
  ultimately show ?thesis
    using mset_sort_desc newest_first_sort_desc renamed_all by blast
qed

lemma db2_facts:
  "fault db2 = None"
  "docs_of db2 ''coach'' = [coach1]"
  "docs_of db2 ''review'' = [review1, review_other, review2]"
  "docs_of db2 ''booking'' = [booking1]"
  by (simp_all add: db2_def docs_of_def)

lemma referencing_db2:
  "referencing ''review'' ''507f1f77bcf86cd799439011'' db2 = [review1, review2]"
  "referencing ''booking'' ''507f1f77bcf86cd799439011'' db2 = [booking1]"
  by (simp_all add: referencing_def db2_facts review1_def review2_def review_other_def
      booking1_def is_match_def)

lemma sort_desc_reviews: "sort_desc ''created_at'' [review1, review2] = [review2, review1]"
  by (simp add: sort_desc_def sort_key_def review1_def review2_def)

theorem C7_lists_newest_first_witness:
  "fault db2 = None
   \<and> (\<exists>items. list_reviews ''507f1f77bcf86cd799439011'' (Some db2)
              = (Inr (Items items), Some db2)
        \<and> newest_first items
        \<and> map (\<lambda>y. (oid y, entries y ''id'', entries y ''created_at'')) items
          = [(None, Some (VStr ''507f1f77bcf86cd799439013''), Some (VTime 9)),
             (None, Some (VStr ''507f1f77bcf86cd799439012''), Some (VTime 5))])
   \<and> (\<exists>items. list_bookings_for_coach ''507f1f77bcf86cd799439011'' (Some db2)
              = (Inr (Items items), Some db2)
        \<and> map (\<lambda>y. (oid y, entries y ''id'', entries y ''created_at'')) items
          = [(None, Some (VStr ''507f1f77bcf86cd799439015''), Some (VTime 3))])"
proof -
  note th = C7_lists_newest_first [OF db2_facts(1), of "''507f1f77bcf86cd799439011''"]
  from th [THEN conjunct1] obtain ds items where
    H: "list_reviews ''507f1f77bcf86cd799439011'' (Some db2) = (Inr (Items items), Some db2)
      \<and> mset ds = mset (referencing ''review'' ''507f1f77bcf86cd799439011'' db2)
      \<and> newest_first items
      \<and> list_all2 (\<lambda>x y. oid y = None
          \<and> entries y = (entries x)(''id'' \<mapsto>
               VStr (case oid x of None \<Rightarrow> ''None'' | Some (OID h) \<Rightarrow> h))) ds items"
    by (elim exE) (rule that)
  have run: "list_reviews ''507f1f77bcf86cd799439011'' (Some db2) = (Inr (Items items), Some db2)"
    and nf: "newest_first items"
    using H by (rule conjunct1, simp)
  from th [THEN conjunct2] obtain bs bitems where
    B: "list_bookings_for_coach ''507f1f77bcf86cd799439011'' (Some db2)
        = (Inr (Items bitems), Some db2)
      \<and> mset bs = mset (referencing ''booking'' ''507f1f77bcf86cd799439011'' db2)
      \<and> newest_first bitems
      \<and> list_all2 (\<lambda>x y. oid y = None
          \<and> entries y = (entries x)(''id'' \<mapsto>
               VStr (case oid x of None \<Rightarrow> ''None'' | Some (OID h) \<Rightarrow> h))) bs bitems"
    by (elim exE) (rule that)
  have brun: "list_bookings_for_coach ''507f1f77bcf86cd799439011'' (Some db2)
        = (Inr (Items bitems), Some db2)"
    using B by (rule conjunct1)
  have "list_reviews ''507f1f77bcf86cd799439011'' (Some db2)
       = (Inr (Items [rename_id review2, rename_id review1]), Some db2)"
    by (simp add: list_reviews_def io_bind_def io_return_def
        find_sorted_coach_id [OF db2_facts(1)] referencing_db2 sort_desc_reviews)
  then have items: "items = [rename_id review2, rename_id review1]"
    using run by simp
  have "list_bookings_for_coach ''507f1f77bcf86cd799439011'' (Some db2)
       = (Inr (Items [rename_id booking1]), Some db2)"
    by (simp add: list_bookings_for_coach_def io_bind_def io_return_def
        find_sorted_coach_id [OF db2_facts(1)] referencing_db2 sort_desc_def)
  then have bitems: "bitems = [rename_id booking1]"
    using brun by simp
  have a: "map (\<lambda>y. (oid y, entries y ''id'', entries y ''created_at'')) items
      = [(None, Some (VStr ''507f1f77bcf86cd799439013''), Some (VTime 9)),
         (None, Some (VStr ''507f1f77bcf86cd799439012''), Some (VTime 5))]"
    by (simp add: items rename_id_def str_id_def str_oid_def review1_def review2_def
        oid2_def oid3_def)
  have b: "map (\<lambda>y. (oid y, entries y ''id'', entries y ''created_at'')) bitems
      = [(None, Some (VStr ''507f1f77bcf86cd799439015''), Some (VTime 3))]"
    by (simp add: bitems rename_id_def str_id_def str_oid_def booking1_def)
  show ?thesis
  proof (intro conjI)
    show "fault db2 = None" by (rule db2_facts(1))
    show "\<exists>items. list_reviews ''507f1f77bcf86cd799439011'' (Some db2)
              = (Inr (Items items), Some db2)
        \<and> newest_first items
        \<and> map (\<lambda>y. (oid y, entries y ''id'', entries y ''created_at'')) items
          = [(None, Some (VStr ''507f1f77bcf86cd799439013''), Some (VTime 9)),
             (None, Some (VStr ''507f1f77bcf86cd799439012''), Some (VTime 5))]"
      using run nf a by (intro exI [of _ items] conjI)
    show "\<exists>items. list_bookings_for_coach ''507f1f77bcf86cd799439011'' (Some db2)
              = (Inr (Items items), Some db2)
        \<and> map (\<lambda>y. (oid y, entries y ''id'', entries y ''created_at'')) items
          = [(None, Some (VStr ''507f1f77bcf86cd799439015''), Some (VTime 3))]"
      using brun b by (intro exI [of _ bitems] conjI)
  qed
qed

lemma list_collection_names_available:
  "fault d = None \<Longrightarrow> list_collection_names (Some d) = (Inr (map fst (collections d)), Some d)"
  by (simp add: list_collection_names_def with_store_def)

lemma list_collection_names_fault:
  "fault d = Some msg \<Longrightarrow> list_collection_names (Some d) = (Inl (Exception msg), Some d)"
  by (simp add: list_collection_names_def with_store_def)

text \<open>
  C9. The diagnostics endpoint never raises, whatever the handle and the store: it
  returns its dict. A store that cannot be reached is reported in the status string, with
  the first 80 characters of the error; a missing handle is reported too; at most 10
  collection names are included (the first 10 of the store, when it answers).
\<close>

theorem C9_diagnostics_never_fail:
  "\<exists>r names. test_database url s = (Inr (Dict r), s)
     \<and> map_of r ''collections'' = Some (VList names) \<and> length names \<le> 10
     \<and> (\<forall>d msg. s = Some d \<and> fault d = Some msg \<longrightarrow>
          map_of r ''database''
            = Some (VStr (warning_sign @ ''  Connected but Error: '' @ take 80 msg)))
     \<and> (s = None \<longrightarrow>
          map_of r ''database''
            = Some (VStr (warning_sign @ ''  Available but not initialized'')))
     \<and> (\<forall>d. s = Some d \<and> fault d = None \<longrightarrow>
          names = map VStr (take 10 (map fst (collections d)))
          \<and> map_of r ''database'' = Some (VStr (check_mark @ '' Connected & Working'')))"
proof (cases s)
  case None
  then show ?thesis
    by (simp add: test_database_def test_database_body_def setitem_def)
next
  case (Some d)
  show ?thesis
  proof (cases "fault d")
    case None
    then show ?thesis
      using Some
      by (simp add: test_database_def test_database_body_def setitem_def Let_def
          list_collection_names_available)
  next
    case (Some msg)
    then show ?thesis
      using \<open>s = Some d\<close>
      by (simp add: test_database_def test_database_body_def setitem_def Let_def
          list_collection_names_fault str_exn_def)
  qed
qed

theorem C9_diagnostics_never_fail_witness:
  "\<exists>r. test_database None (Some down_db) = (Inr (Dict r), Some down_db)
     \<and> map_of r ''database''
         = Some (VStr (warning_sign @ ''  Connected but Error: connection refused''))"
  using C9_diagnostics_never_fail [of None "Some down_db"]
  by (auto simp: down_db_def)













end
